theory Spec2Isabelle
  imports Main
begin

section \<open>Data model of \<open>solution.py\<close>\<close>

text \<open>
  The resolver of \<open>solution.py\<close> (class \<open>EnhancedAIConflictResolver\<close>) is modelled by
  explicit state passing. Everything outside the process is an environment \<open>env\<close>:
  the result of each \<open>subprocess.run\<close>, the flag \<open>HAS_AI\<close>, the file read by
  \<open>load_json\<close> and what the advisory service answers. Strings are byte lists; wall-clock
  timestamps (\<open>time.strftime\<close>), \<open>time.sleep\<close> and console output do not influence
  control flow and are left out.
\<close>

text \<open>What \<open>subprocess.run(..., timeout=300)\<close> can do: return, time out, or raise.\<close>

datatype proc_result =
    Completed string string int
  | TimeoutExpired
  | Raised string

text \<open>One dictionary appended to \<open>self.execution_log\<close>.\<close>

record log_entry =
  le_command :: string
  le_success :: bool
  le_output :: string
  le_exit_code :: int
  le_description :: string

text \<open>One dictionary appended to \<open>self.solution_history\<close>.\<close>

record history_entry =
  he_solution_num :: nat
  he_description :: string
  he_commands :: "string list"

text \<open>One dictionary of \<open>failed_commands\<close> in \<open>apply_solution\<close>.\<close>

record failed_command =
  fc_command :: string
  fc_output :: string
  fc_exit_code :: int

text \<open>
  A solution dictionary, read with \<open>.get\<close>: an absent \<open>solution_type\<close> reads as the
  empty string, an absent \<open>priority\<close> as 999 when sorting, an absent
  \<open>verification_command\<close> as \<open>None\<close>.
\<close>

record solution =
  solution_type :: string
  priority :: "int option"
  description :: string
  undo_commands :: "string list"
  commands :: "string list"
  verification_command :: "string option"

text \<open>
  The dictionary returned by a consultation. It always has the key
  \<open>recommended_solutions\<close> (\<open>trigger_web_search_consultation\<close> returns \<open>None\<close>
  otherwise); \<open>should_continue\<close> may be absent.
\<close>

record advice =
  recommended_solutions :: "solution list"
  should_continue :: "bool option"

text \<open>
  A dictionary received from the advisory service, read through the keys that decide
  what \<open>solution.py\<close> does with it. For \<open>recommended_solutions\<close> and
  \<open>should_continue\<close>, \<open>None\<close> is an absent key. The value under
  \<open>recommended_solutions\<close> is a list of solution dictionaries, as the request asks
  for; the value under \<open>should_continue\<close> is read by its truth value
  (\<open>not ai_response.get('should_continue', True)\<close>). Of the value under
  \<open>web_searches_performed\<close> only \<open>len\<close> is taken: \<open>None\<close> is an absent key,
  \<open>Some None\<close> a value without a length (a number, a boolean or \<open>null\<close>, on which
  \<open>len\<close> raises \<open>TypeError\<close>), \<open>Some (Some n)\<close> a value of length \<open>n\<close>.
\<close>

record payload =
  p_recommended_solutions :: "solution list option"
  p_web_searches_performed :: "nat option option"
  p_should_continue :: "bool option"

text \<open>
  What lines 285 to 317 of \<open>trigger_web_search_consultation\<close> obtain from the
  advisory service. \<open>No_reply\<close>: \<open>addhistory\<close> returns a false value, or lines
  290 to 314 raise (the exception is caught at line 339); in both cases the
  consultation returns \<open>None\<close>. \<open>Reply parsed ai_data\<close>: \<open>ai_data\<close> is the
  dictionary \<open>response[last_key]['llm']\<close>; \<open>parsed\<close> is the dictionary that
  \<open>safe_json_parse(main_response)\<close> returns, and \<open>None\<close> when \<open>main_response\<close>
  is not a string or when the decoder raises or returns something that is not a
  dictionary: then the test at line 318 is false or raises into the bare \<open>except\<close> at
  line 329, and control reaches the fallback at line 333.
\<close>

datatype reply =
    No_reply
  | Reply "payload option" payload

text \<open>The diagnosis file after \<open>load_json\<close>.\<close>

record diagnosis =
  overall_status :: "string option"
  summary :: "string option"
  d_recommended_solutions :: "solution list"

text \<open>
  The environment. \<open>subprocess_run k c\<close> is the result of the \<open>k\<close>-th call of
  \<open>subprocess.run\<close> of the session (counted from 0) when it runs command \<open>c\<close>;
  \<open>consult k\<close> is the reply of the advisory service in consultation number \<open>k\<close>
  (counted from 1).
\<close>

record env =
  subprocess_run :: "nat \<Rightarrow> string \<Rightarrow> proc_result"
  HAS_AI :: bool
  load_json :: "diagnosis option"
  consult :: "nat \<Rightarrow> reply"

text \<open>
  The fields of the resolver object. \<open>invocations\<close> is not a field of the source: it
  counts the calls of \<open>execute_command\<close> made so far and selects the next result of
  \<open>subprocess_run\<close>.
\<close>

record resolver =
  execution_log :: "log_entry list"
  max_ai_iterations :: int
  ai_consultation_count :: int
  web_search_count :: int
  solved :: bool
  solution_history :: "history_entry list"
  invocations :: nat

definition init_resolver :: "int \<Rightarrow> resolver" where
  "init_resolver m =
     \<lparr>execution_log = [], max_ai_iterations = m, ai_consultation_count = 0,
      web_search_count = 0, solved = False, solution_history = [], invocations = 0\<rparr>"

section \<open>String helpers\<close>

text \<open>\<open>str.lower\<close> on byte strings: the letters A to Z are mapped to a to z.\<close>

definition lower_char :: "char \<Rightarrow> char" where
  "lower_char c =
     (let n = (of_char c :: nat) in if 65 \<le> n \<and> n \<le> 90 then char_of (n + 32) else c)"

definition lower :: "string \<Rightarrow> string" where
  "lower s = map lower_char s"

fun starts_with :: "string \<Rightarrow> string \<Rightarrow> bool" where
  "starts_with s [] = True"
| "starts_with [] (p # ps) = False"
| "starts_with (c # cs) (p # ps) = (c = p \<and> starts_with cs ps)"

text \<open>Python's \<open>p in s\<close> on strings.\<close>

fun str_in :: "string \<Rightarrow> string \<Rightarrow> bool" where
  "str_in p [] = (p = [])"
| "str_in p (c # cs) = (starts_with (c # cs) p \<or> str_in p cs)"

text \<open>
  The specification's notion: \<open>m\<close> occurs in \<open>s\<close> as a substring up to the case of
  letters.
\<close>

definition ci_substring :: "string \<Rightarrow> string \<Rightarrow> bool" where
  "ci_substring m s = (\<exists>pre w post. s = pre @ w @ post \<and> lower w = lower m)"

section \<open>The command runner\<close>

definition has_error :: "string \<Rightarrow> bool" where
  "has_error output =
     list_ex (\<lambda>err. str_in err (lower output))
       [''error:'', ''failed'', ''could not'', ''conflict'']"

definition execute_command ::
  "env \<Rightarrow> string \<Rightarrow> string \<Rightarrow> resolver \<Rightarrow> (bool \<times> string) \<times> resolver" where
  "execute_command e command descr r =
     (case subprocess_run e (invocations r) command of
        Completed out err returncode \<Rightarrow>
          (let output = out @ err;
               success = (returncode = 0);
               actual_success = (success \<and> \<not> has_error output)
           in ((actual_success, output),
               r\<lparr>execution_log := execution_log r @
                    [\<lparr>le_command = command, le_success = actual_success,
                      le_output = output, le_exit_code = returncode,
                      le_description = descr\<rparr>],
                  invocations := Suc (invocations r)\<rparr>))
      | TimeoutExpired \<Rightarrow>
          ((False, ''Command timeout''), r\<lparr>invocations := Suc (invocations r)\<rparr>)
      | Raised msg \<Rightarrow>
          ((False, msg), r\<lparr>invocations := Suc (invocations r)\<rparr>))"

section \<open>The solution applier\<close>

text \<open>The dictionary appended to \<open>solution_history\<close> at the start of \<open>apply_solution\<close>.\<close>

definition record_attempt :: "solution \<Rightarrow> nat \<Rightarrow> resolver \<Rightarrow> resolver" where
  "record_attempt sol solution_num r =
     r\<lparr>solution_history := solution_history r @
          [\<lparr>he_solution_num = solution_num, he_description = description sol,
            he_commands = commands sol\<rparr>]\<rparr>"

text \<open>The loop over \<open>undo_commands\<close>: results are ignored.\<close>

fun run_undo :: "env \<Rightarrow> string list \<Rightarrow> resolver \<Rightarrow> resolver" where
  "run_undo e [] r = r"
| "run_undo e (cmd # cmds) r =
     run_undo e cmds (snd (execute_command e cmd ''Undo previous changes'' r))"

text \<open>
  The loop over \<open>commands\<close>, with the loop variables \<open>all_success\<close> and
  \<open>failed_commands\<close>. A failing command does not stop the loop.
\<close>

fun run_commands ::
  "env \<Rightarrow> string list \<Rightarrow> bool \<Rightarrow> failed_command list \<Rightarrow> resolver \<Rightarrow>
   (bool \<times> failed_command list) \<times> resolver" where
  "run_commands e [] all_success failed_commands r = ((all_success, failed_commands), r)"
| "run_commands e (cmd # cmds) all_success failed_commands r =
     (let res = execute_command e cmd [] r;
          success = fst (fst res);
          output = snd (fst res)
      in if \<not> success then
           run_commands e cmds False
             (failed_commands @
                [\<lparr>fc_command = cmd, fc_output = output, fc_exit_code = 1\<rparr>])
             (snd res)
         else run_commands e cmds all_success failed_commands (snd res))"

text \<open>
  \<open>all_success and solution.get('verification_command')\<close>: an absent or empty
  verification command is falsy.
\<close>

definition apply_recorded ::
  "env \<Rightarrow> solution \<Rightarrow> resolver \<Rightarrow> (bool \<times> failed_command list) \<times> resolver" where
  "apply_recorded e sol r1 =
     (let r2 = run_undo e (undo_commands sol) r1
      in if solution_type sol = ''commands'' then
           if commands sol = [] then ((False, []), r2)
           else
             (let res = run_commands e (commands sol) True [] r2;
                  all_success = fst (fst res);
                  failed_commands = snd (fst res);
                  r3 = snd res
              in case verification_command sol of
                   None \<Rightarrow> ((all_success, failed_commands), r3)
                 | Some vc \<Rightarrow>
                     if all_success \<and> vc \<noteq> [] then
                       (let ver = execute_command e vc ''Verify solution'' r3
                        in if fst (fst ver)
                           then ((True, failed_commands), (snd ver)\<lparr>solved := True\<rparr>)
                           else ((False, failed_commands), snd ver))
                     else ((all_success, failed_commands), r3))
         else ((False, []), r2))"

text \<open>
  \<open>apply_solution\<close>: the history entry is appended first (lines 359 to 364), then
  the undo commands, the main commands and the verification command run (lines 366
  to 417, \<open>apply_recorded\<close>).
\<close>

definition apply_solution ::
  "env \<Rightarrow> solution \<Rightarrow> nat \<Rightarrow> resolver \<Rightarrow> (bool \<times> failed_command list) \<times> resolver" where
  "apply_solution e sol solution_num r =
     apply_recorded e sol (record_attempt sol solution_num r)"

text \<open>A caller making a sequence of calls of \<open>apply_solution\<close>, one after the other.\<close>

fun apply_each :: "env \<Rightarrow> (solution \<times> nat) list \<Rightarrow> resolver \<Rightarrow> resolver" where
  "apply_each e [] r = r"
| "apply_each e (call # calls) r =
     apply_each e calls (snd (apply_solution e (fst call) (snd call) r))"

section \<open>The consultation manager\<close>

text \<open>
  \<open>if ... 'recommended_solutions' in ai_data: return ai_data\<close> (lines 333 and 334): a
  dictionary is returned only if it has the key, and then as it is.
\<close>

definition with_solutions :: "payload \<Rightarrow> advice option" where
  "with_solutions p =
     (case p_recommended_solutions p of
        None \<Rightarrow> None
      | Some sols \<Rightarrow>
          Some \<lparr>recommended_solutions = sols, should_continue = p_should_continue p\<rparr>)"

text \<open>
  \<open>if 'recommended_solutions' in parsed: ... return parsed\<close> (lines 318 to 328),
  inside \<open>try\<close> with a bare \<open>except: pass\<close>: before the dictionary is returned, the
  lengths of \<open>recommended_solutions\<close> and, if present, of
  \<open>web_searches_performed\<close> are printed; if the latter has no length, the exception
  leads to the fallback.
\<close>

definition decoded_solutions :: "payload \<Rightarrow> advice option" where
  "decoded_solutions p =
     (case p_recommended_solutions p of
        None \<Rightarrow> None
      | Some sols \<Rightarrow>
          if p_web_searches_performed p = Some None then None
          else Some \<lparr>recommended_solutions = sols, should_continue = p_should_continue p\<rparr>)"

text \<open>
  Lines 297 to 341: the decoded \<open>main_response\<close> is returned if it has the key
  \<open>recommended_solutions\<close>, else the reply dictionary itself if it has the key, else
  \<open>None\<close>.
\<close>

definition extract_solutions :: "reply \<Rightarrow> advice option" where
  "extract_solutions rp =
     (case rp of
        No_reply \<Rightarrow> None
      | Reply parsed ai_data \<Rightarrow>
          (case (case parsed of None \<Rightarrow> None | Some p \<Rightarrow> decoded_solutions p) of
             Some a \<Rightarrow> Some a
           | None \<Rightarrow> with_solutions ai_data))"

text \<open>
  \<open>trigger_web_search_consultation\<close>: the two guards, the two increments, and the
  reply of the advisory service to the request. A run is deterministic once the
  environment is fixed, so the reply to each request is determined by the number of the
  consultation.
\<close>

definition trigger_web_search_consultation ::
  "env \<Rightarrow> failed_command list \<Rightarrow> string \<Rightarrow> resolver \<Rightarrow> advice option \<times> resolver" where
  "trigger_web_search_consultation e failed_solutions original_issue r =
     (if \<not> HAS_AI e then (None, r)
      else if ai_consultation_count r \<ge> max_ai_iterations r then (None, r)
      else
        (let r' = r\<lparr>ai_consultation_count := ai_consultation_count r + 1,
                     web_search_count := web_search_count r + 1\<rparr>
         in (extract_solutions (consult e (nat (ai_consultation_count r'))), r')))"

section \<open>The resolution loop\<close>

definition is_commands :: "solution \<Rightarrow> bool" where
  "is_commands s = (solution_type s = ''commands'')"

definition priority_key :: "solution \<Rightarrow> int" where
  "priority_key s = (case priority s of None \<Rightarrow> 999 | Some p \<Rightarrow> p)"

text \<open>
  The \<open>for\<close> loop over the queue inside one iteration. \<open>Solved\<close> is the
  \<open>return True\<close> in the middle of the loop; \<open>Finished\<close> carries the loop variables
  \<open>success_count\<close>, \<open>consecutive_failures\<close> and \<open>all_failed_commands\<close>.
\<close>

datatype pass_result =
    Solved resolver
  | Finished nat nat "failed_command list" resolver

fun try_solutions ::
  "env \<Rightarrow> solution list \<Rightarrow> nat \<Rightarrow> nat \<Rightarrow> nat \<Rightarrow> failed_command list \<Rightarrow> resolver \<Rightarrow>
   pass_result" where
  "try_solutions e [] i success_count consecutive_failures all_failed r =
     Finished success_count consecutive_failures all_failed r"
| "try_solutions e (sol # sols) i success_count consecutive_failures all_failed r =
     (let res = apply_solution e sol i r;
          success = fst (fst res);
          failed_cmds = snd (fst res)
      in if success then
           (let ver = execute_command e ''pip check'' ''Final dependency check'' (snd res)
            in if fst (fst ver) then Solved ((snd ver)\<lparr>solved := True\<rparr>)
               else try_solutions e sols (Suc i) (Suc success_count) 0 all_failed (snd ver))
         else try_solutions e sols (Suc i) success_count (Suc consecutive_failures)
                (all_failed @ failed_cmds) (snd res))"

primrec pass_state :: "pass_result \<Rightarrow> resolver" where
  "pass_state (Solved r) = r"
| "pass_state (Finished success_count consecutive_failures all_failed r) = r"

text \<open>
  What the loop does with the answer of a consultation: install a new queue and
  \<open>continue\<close>, \<open>break\<close>, or fall through to the next iteration with the old queue.
\<close>

datatype escalation = NewQueue "solution list" | Stop | Retry

definition escalate :: "advice option \<Rightarrow> escalation" where
  "escalate ai_response =
     (case ai_response of
        None \<Rightarrow> Retry
      | Some a \<Rightarrow>
          (let new_solutions = filter is_commands (recommended_solutions a)
           in if new_solutions \<noteq> [] then NewQueue new_solutions
              else if \<not> (case should_continue a of None \<Rightarrow> True | Some b \<Rightarrow> b) then Stop
              else Retry))"

definition max_total_iterations :: nat where
  "max_total_iterations = 20"

text \<open>
  The \<open>while\<close> loop; \<open>iteration\<close> is the value of the counter before it is
  incremented. The result is the value returned by \<open>continuous_resolution_loop\<close>.
\<close>

function resolution_while ::
  "env \<Rightarrow> string \<Rightarrow> nat \<Rightarrow> solution list \<Rightarrow> nat \<Rightarrow> resolver \<Rightarrow> bool \<times> resolver" where
  "resolution_while e original_issue iteration solutions consecutive_failures r =
     (if iteration < max_total_iterations \<and> \<not> solved r then
        if solutions = [] then (False, r)
        else
          (case try_solutions e solutions 1 0 consecutive_failures [] r of
             Solved r' \<Rightarrow> (True, r')
           | Finished success_count cf all_failed r1 \<Rightarrow>
               if success_count = 0 \<and> HAS_AI e then
                 (let c = trigger_web_search_consultation e all_failed original_issue r1
                  in case escalate (fst c) of
                       NewQueue new_solutions \<Rightarrow>
                         resolution_while e original_issue (Suc iteration) new_solutions 0 (snd c)
                     | Stop \<Rightarrow> (False, snd c)
                     | Retry \<Rightarrow>
                         resolution_while e original_issue (Suc iteration) solutions cf (snd c))
               else if success_count = 0 then (False, r1)
               else resolution_while e original_issue (Suc iteration) solutions cf r1)
      else (False, r))"
  by pat_completeness auto
termination
  by (relation "measure (\<lambda>(e, oi, iteration, sols, cf, r). max_total_iterations - iteration)")
     auto

declare resolution_while.simps [simp del]

definition continuous_resolution_loop :: "env \<Rightarrow> resolver \<Rightarrow> bool \<times> resolver" where
  "continuous_resolution_loop e r =
     (case load_json e of
        None \<Rightarrow> (False, r)
      | Some d \<Rightarrow>
          if overall_status d = Some ''success'' then (True, r)
          else if d_recommended_solutions d = [] then (False, r)
          else
            resolution_while e
              (case summary d of None \<Rightarrow> ''Package conflict'' | Some t \<Rightarrow> t)
              0 (sort_key priority_key (filter is_commands (d_recommended_solutions d)))
              0 r)"

section \<open>The entry point\<close>

text \<open>The fields of the persisted log that depend on the session.\<close>

record log_data =
  resolution_status :: string
  ai_consultations :: int
  web_searches :: int
  total_commands :: nat
  successful_commands :: nat
  ld_solution_history :: "history_entry list"
  ld_execution_log :: "log_entry list"

definition save_execution_log :: "resolver \<Rightarrow> log_data" where
  "save_execution_log r =
     \<lparr>resolution_status = (if solved r then ''SOLVED'' else ''INCOMPLETE''),
      ai_consultations = ai_consultation_count r,
      web_searches = web_search_count r,
      total_commands = length (execution_log r),
      successful_commands = length (filter le_success (execution_log r)),
      ld_solution_history = solution_history r,
      ld_execution_log = execution_log r\<rparr>"

text \<open>
  \<open>main\<close> after argument parsing: \<open>HAS_AI e\<close> is the flag after \<open>--no-ai\<close> has been
  taken into account. The result is the exit code and the persisted log.
\<close>

definition main :: "env \<Rightarrow> int \<Rightarrow> int \<times> log_data" where
  "main e max_ai =
     (let res = continuous_resolution_loop e (init_resolver max_ai);
          success = fst res
      in (if success then 0 else 1, save_execution_log (snd res)))"

section \<open>Concrete environments\<close>

text \<open>Every command exits with code 0 and prints an error line.\<close>

definition env_marker :: env where
  "env_marker =
     \<lparr>subprocess_run = (\<lambda>k c. Completed ''ERROR: No matching distribution'' [] 0),
      HAS_AI = False, load_json = None, consult = (\<lambda>k. No_reply)\<rparr>"

text \<open>The first command times out, every later one raises.\<close>

definition env_timeout :: env where
  "env_timeout =
     \<lparr>subprocess_run = (\<lambda>k c. if k = 0 then TimeoutExpired else Raised ''boom''),
      HAS_AI = False, load_json = None, consult = (\<lambda>k. No_reply)\<rparr>"

text \<open>
  The environment in which no solution other than those of type \<open>commands\<close> is ever
  offered: they are removed from the diagnosis and from every dictionary of every reply
  of the advisory service.
\<close>

definition only_commands :: "payload \<Rightarrow> payload" where
  "only_commands p =
     p\<lparr>p_recommended_solutions := map_option (filter is_commands) (p_recommended_solutions p)\<rparr>"

definition drop_non_commands :: "env \<Rightarrow> env" where
  "drop_non_commands e =
     e\<lparr>load_json :=
         map_option
           (\<lambda>d. d\<lparr>d_recommended_solutions := filter is_commands (d_recommended_solutions d)\<rparr>)
           (load_json e),
       consult :=
         (\<lambda>k. case consult e k of
                 No_reply \<Rightarrow> No_reply
               | Reply parsed ai_data \<Rightarrow>
                   Reply (map_option only_commands parsed) (only_commands ai_data))\<rparr>"

text \<open>Solutions and diagnoses used as concrete inputs.\<close>

definition sol_a :: solution where
  "sol_a =
     \<lparr>solution_type = ''commands'', priority = Some 1, description = ''install a'',
      undo_commands = [], commands = [''pip install a''], verification_command = None\<rparr>"

definition sol_b :: solution where
  "sol_b =
     \<lparr>solution_type = ''commands'', priority = Some 1, description = ''install b'',
      undo_commands = [], commands = [''pip install b''], verification_command = None\<rparr>"

definition sol_v :: solution where
  "sol_v =
     \<lparr>solution_type = ''commands'', priority = Some 1, description = ''install a, verified'',
      undo_commands = [], commands = [''pip install a''],
      verification_command = Some ''pip show a''\<rparr>"

definition sol_manual :: solution where
  "sol_manual =
     \<lparr>solution_type = ''user_action'', priority = Some 1, description = ''ask the user'',
      undo_commands = [], commands = [''pip install a''], verification_command = None\<rparr>"

definition diag :: "solution list \<Rightarrow> diagnosis" where
  "diag sols =
     \<lparr>overall_status = Some ''failed'', summary = None, d_recommended_solutions = sols\<rparr>"

text \<open>The diagnosis reports success.\<close>

definition env_success :: env where
  "env_success =
     \<lparr>subprocess_run = (\<lambda>k c. Completed [] [] 0), HAS_AI = True,
      load_json = Some \<lparr>overall_status = Some ''success'', summary = None,
                        d_recommended_solutions = [sol_a]\<rparr>,
      consult = (\<lambda>k. No_reply)\<rparr>"

text \<open>Every command succeeds except the final \<open>pip check\<close>; no advisory service.\<close>

definition env_verified :: env where
  "env_verified =
     \<lparr>subprocess_run = (\<lambda>k c. if c = ''pip check'' then Completed [] [] 1
                               else Completed [] [] 0),
      HAS_AI = False, load_json = Some (diag [sol_v]), consult = (\<lambda>k. No_reply)\<rparr>"

text \<open>The first command succeeds, every later one fails.\<close>

definition env_first_only :: env where
  "env_first_only =
     \<lparr>subprocess_run = (\<lambda>k c. if k = 0 then Completed [] [] 0 else Completed [] [] 1),
      HAS_AI = False, load_json = None, consult = (\<lambda>k. No_reply)\<rparr>"

text \<open>
  The reply dictionary \<open>response[last_key]['llm']\<close> as the advisory service builds
  it: it carries \<open>main_response\<close> and has neither of the two keys itself.
\<close>

definition llm_data :: payload where
  "llm_data =
     \<lparr>p_recommended_solutions = None, p_web_searches_performed = None,
      p_should_continue = None\<rparr>"

text \<open>
  \<open>pip install a\<close> fails, everything else succeeds; in every consultation the decoded
  \<open>main_response\<close> has the solution \<open>sol_b\<close> and \<open>should_continue = false\<close>.
\<close>

definition env_stop_with_solutions :: env where
  "env_stop_with_solutions =
     \<lparr>subprocess_run = (\<lambda>k c. if c = ''pip install a'' then Completed [] [] 1
                               else Completed [] [] 0),
      HAS_AI = True, load_json = Some (diag [sol_a]),
      consult = (\<lambda>k. Reply (Some \<lparr>p_recommended_solutions = Some [sol_b],
                                    p_web_searches_performed = None,
                                    p_should_continue = Some False\<rparr>) llm_data)\<rparr>"

text \<open>The same, but the decoded \<open>main_response\<close> has an empty list of solutions.\<close>

definition env_stop :: env where
  "env_stop =
     \<lparr>subprocess_run = (\<lambda>k c. if c = ''pip install a'' then Completed [] [] 1
                               else Completed [] [] 0),
      HAS_AI = True, load_json = Some (diag [sol_a]),
      consult = (\<lambda>k. Reply (Some \<lparr>p_recommended_solutions = Some [],
                                    p_web_searches_performed = None,
                                    p_should_continue = Some False\<rparr>) llm_data)\<rparr>"

text \<open>
  The same, but the decoded \<open>main_response\<close> is \<open>{"should_continue": false}\<close>: it
  has no key \<open>recommended_solutions\<close>.
\<close>

definition env_stop_no_key :: env where
  "env_stop_no_key =
     \<lparr>subprocess_run = (\<lambda>k c. if c = ''pip install a'' then Completed [] [] 1
                               else Completed [] [] 0),
      HAS_AI = True, load_json = Some (diag [sol_a]),
      consult = (\<lambda>k. Reply (Some \<lparr>p_recommended_solutions = None,
                                    p_web_searches_performed = None,
                                    p_should_continue = Some False\<rparr>) llm_data)\<rparr>"

section \<open>The resilient decoder of \<open>runthis.py\<close>\<close>

text \<open>
  The exceptions that \<open>json.loads\<close> raises on a string: \<open>JSONDecodeError\<close> for a
  text that is not JSON, \<open>ValueError\<close> (of which \<open>JSONDecodeError\<close> is a subclass;
  here the constructor stands for the other instances) for an integer with more digits
  than the interpreter converts, and \<open>RecursionError\<close> for a text nested deeper
  than the interpreter's stack allows.
\<close>

datatype error = JSONDecodeError | ValueError | RecursionError

text \<open>
  A decoded JSON text. An integer is its value; a float keeps its lexeme (floating
  point arithmetic is not modelled), and so do \<open>NaN\<close> and the infinities; a string
  is the list of its code points, escapes decoded; an object is a Python dictionary:
  keys in the order of their first insertion, each with the value inserted last.
\<close>

datatype json =
    JNull
  | JBool bool
  | JInt int
  | JFloat string
  | JString "nat list"
  | JArray "json list"
  | JObject "(nat list \<times> json) list"

text \<open>
  \<open>json.loads\<close> belongs to Python's standard library, not to the repository:
  \<open>safe_json_parse\<close> below takes it as a parameter. To evaluate the decoder on
  concrete texts, \<open>json_loads\<close> follows the scanner of CPython's \<open>json\<close> module in
  its default configuration, on texts whose code points are below 256: whitespace,
  the literals, numbers with fraction and exponent, \<open>NaN\<close> and the infinities,
  strings with escapes (surrogate pairs joined) and no control characters, arrays,
  objects, no trailing comma, nothing but whitespace after the value.
\<close>

definition is_ws :: "char \<Rightarrow> bool" where
  "is_ws c = (c = CHR '' '' \<or> c = CHR 0x09 \<or> c = CHR 0x0A \<or> c = CHR 0x0D)"

definition skip_ws :: "string \<Rightarrow> string" where
  "skip_ws s = dropWhile is_ws s"

definition is_digit :: "char \<Rightarrow> bool" where
  "is_digit c = (c \<in> set ''0123456789'')"

definition is_hex :: "char \<Rightarrow> bool" where
  "is_hex c = (c \<in> set ''0123456789abcdefABCDEF'')"

text \<open>The value of a decimal digit, of a hexadecimal digit, and of a run of them.\<close>

definition digit_val :: "char \<Rightarrow> nat" where
  "digit_val c = of_char c - 48"

definition hex_val :: "char \<Rightarrow> nat" where
  "hex_val c =
     (let n = (of_char c :: nat)
      in if 97 \<le> n then n - 87 else if 65 \<le> n then n - 55 else n - 48)"

definition int_of_digits :: "string \<Rightarrow> int" where
  "int_of_digits ds = foldl (\<lambda>a c. 10 * a + int (digit_val c)) 0 ds"

definition hex4 :: "string \<Rightarrow> nat" where
  "hex4 hs = foldl (\<lambda>a c. 16 * a + hex_val c) 0 hs"

definition int_max_str_digits :: nat where
  "int_max_str_digits = 4300"

text \<open>
  The number scanner: an optional minus sign, the integer digits (a leading zero stands
  alone), then a fraction and an exponent, each dropped again if no digit follows.
\<close>

definition scan_int :: "string \<Rightarrow> (string \<times> string) option" where
  "scan_int s =
     (case s of
        [] \<Rightarrow> None
      | c # cs \<Rightarrow>
          if c = CHR ''0'' then Some ([c], cs)
          else if is_digit c then Some (takeWhile is_digit s, dropWhile is_digit s)
          else None)"

definition scan_frac :: "string \<Rightarrow> string \<times> string" where
  "scan_frac s =
     (case s of
        c # cs \<Rightarrow>
          if c = CHR ''.'' \<and> takeWhile is_digit cs \<noteq> []
          then (c # takeWhile is_digit cs, dropWhile is_digit cs)
          else ([], s)
      | [] \<Rightarrow> ([], s))"

definition scan_sign :: "string \<Rightarrow> string \<times> string" where
  "scan_sign s =
     (case s of
        c # cs \<Rightarrow> if c = CHR ''-'' \<or> c = CHR ''+'' then ([c], cs) else ([], s)
      | [] \<Rightarrow> ([], s))"

definition scan_exp :: "string \<Rightarrow> string \<times> string" where
  "scan_exp s =
     (case s of
        c # cs \<Rightarrow>
          if (c = CHR ''e'' \<or> c = CHR ''E'') \<and>
             takeWhile is_digit (snd (scan_sign cs)) \<noteq> []
          then (c # fst (scan_sign cs) @ takeWhile is_digit (snd (scan_sign cs)),
                dropWhile is_digit (snd (scan_sign cs)))
          else ([], s)
      | [] \<Rightarrow> ([], s))"

definition scan_number :: "string \<Rightarrow> (bool \<times> string \<times> string \<times> string) option" where
  "scan_number s =
     (let negative = starts_with s ''-'';
          s1 = (if negative then tl s else s)
      in case scan_int s1 of
           None \<Rightarrow> None
         | Some (ds, r1) \<Rightarrow>
             (let fr = scan_frac r1; ex = scan_exp (snd fr)
              in Some (negative, ds, fst fr @ fst ex, snd ex)))"

text \<open>
  The value of a number. A lexeme with fraction or exponent is a float. Otherwise it is
  converted by \<open>int\<close>, which raises \<open>ValueError\<close> when there are more than
  \<open>sys.get_int_max_str_digits()\<close> digits; the default of this limit is 4300.
\<close>

definition number_value :: "bool \<Rightarrow> string \<Rightarrow> string \<Rightarrow> error + json" where
  "number_value negative ds fe =
     (if fe \<noteq> [] then Inr (JFloat ((if negative then ''-'' else []) @ ds @ fe))
      else if length ds > int_max_str_digits then Inl ValueError
      else Inr (JInt (if negative then - int_of_digits ds else int_of_digits ds)))"

text \<open>
  The string scanner, called after the opening quote; the second argument collects the
  code points read so far, last first. A four-digit escape for a high surrogate that
  is followed by one for a low surrogate gives one code point.
\<close>

definition escape_char :: "char \<Rightarrow> nat option" where
  "escape_char e =
     (if e = CHR 0x22 then Some 0x22
      else if e = CHR 0x5C then Some 0x5C
      else if e = CHR ''/'' then Some 0x2F
      else if e = CHR ''b'' then Some 8
      else if e = CHR ''f'' then Some 12
      else if e = CHR ''n'' then Some 10
      else if e = CHR ''r'' then Some 13
      else if e = CHR ''t'' then Some 9
      else None)"

fun scan_string :: "string \<Rightarrow> nat list \<Rightarrow> (nat list \<times> string) option" where
  "scan_string [] acc = None"
| "scan_string (c # cs) acc =
     (if c = CHR 0x22 then Some (rev acc, cs)
      else if c = CHR 0x5C then
        (case cs of
           [] \<Rightarrow> None
         | e # es \<Rightarrow>
             if e = CHR ''u'' then
               if length es \<ge> 4 \<and> list_all is_hex (take 4 es) then
                 if 0xD800 \<le> hex4 (take 4 es) \<and> hex4 (take 4 es) \<le> 0xDBFF \<and>
                    starts_with (drop 4 es) [CHR 0x5C, CHR ''u'']
                 then
                   if length es \<ge> 10 \<and> list_all is_hex (take 4 (drop 6 es)) then
                     if 0xDC00 \<le> hex4 (take 4 (drop 6 es)) \<and>
                        hex4 (take 4 (drop 6 es)) \<le> 0xDFFF
                     then scan_string (drop 10 es)
                            ((0x10000 + (hex4 (take 4 es) - 0xD800) * 0x400 +
                              (hex4 (take 4 (drop 6 es)) - 0xDC00)) # acc)
                     else scan_string (drop 4 es) (hex4 (take 4 es) # acc)
                   else None
                 else scan_string (drop 4 es) (hex4 (take 4 es) # acc)
               else None
             else
               (case escape_char e of
                  None \<Rightarrow> None
                | Some n \<Rightarrow> scan_string es (n # acc)))
      else if (of_char c :: nat) < 0x20 then None
      else scan_string cs (of_char c # acc))"

text \<open>\<open>d[k] = v\<close> on a dictionary kept as a list in insertion order.\<close>

fun dict_set :: "'k \<Rightarrow> 'v \<Rightarrow> ('k \<times> 'v) list \<Rightarrow> ('k \<times> 'v) list" where
  "dict_set k v [] = [(k, v)]"
| "dict_set k v (kv # kvs) = (if fst kv = k then (k, v) # kvs else kv # dict_set k v kvs)"

text \<open>
  The value scanner (\<open>scan_once\<close>), the loop over the elements of an array and the
  loop over the members of an object. The second argument is the number of arrays and
  objects that may still be entered: entering one more raises \<open>RecursionError\<close>. The
  first argument bounds the number of calls and makes the recursion structural; every
  call that returns a value has consumed a character, and \<open>json_loads\<close> starts with
  more than twice the length of the text.
\<close>

fun parse_value :: "nat \<Rightarrow> nat \<Rightarrow> string \<Rightarrow> error + json \<times> string"
  and parse_elements :: "nat \<Rightarrow> nat \<Rightarrow> string \<Rightarrow> json list \<Rightarrow> error + json \<times> string"
  and parse_members ::
    "nat \<Rightarrow> nat \<Rightarrow> string \<Rightarrow> (nat list \<times> json) list \<Rightarrow> error + json \<times> string"
where
  "parse_value 0 depth s = Inl JSONDecodeError"
| "parse_value (Suc n) depth s =
     (case s of
        [] \<Rightarrow> Inl JSONDecodeError
      | c # cs \<Rightarrow>
          if c = CHR 0x22 then
            (case scan_string cs [] of
               None \<Rightarrow> Inl JSONDecodeError
             | Some (str, rest) \<Rightarrow> Inr (JString str, rest))
          else if c = CHR ''{'' then
            (case depth of
               0 \<Rightarrow> Inl RecursionError
             | Suc depth' \<Rightarrow>
                 (case skip_ws cs of
                    [] \<Rightarrow> Inl JSONDecodeError
                  | d # ds \<Rightarrow> if d = CHR ''}'' then Inr (JObject [], ds)
                              else parse_members n depth' (d # ds) []))
          else if c = CHR ''['' then
            (case depth of
               0 \<Rightarrow> Inl RecursionError
             | Suc depth' \<Rightarrow>
                 (case skip_ws cs of
                    [] \<Rightarrow> Inl JSONDecodeError
                  | d # ds \<Rightarrow> if d = CHR '']'' then Inr (JArray [], ds)
                              else parse_elements n depth' (d # ds) []))
          else if starts_with s ''null'' then Inr (JNull, drop 4 s)
          else if starts_with s ''true'' then Inr (JBool True, drop 4 s)
          else if starts_with s ''false'' then Inr (JBool False, drop 5 s)
          else if starts_with s ''NaN'' then Inr (JFloat ''NaN'', drop 3 s)
          else if starts_with s ''Infinity'' then Inr (JFloat ''Infinity'', drop 8 s)
          else if starts_with s ''-Infinity'' then Inr (JFloat ''-Infinity'', drop 9 s)
          else
            (case scan_number s of
               None \<Rightarrow> Inl JSONDecodeError
             | Some (negative, ds, fe, rest) \<Rightarrow>
                 (case number_value negative ds fe of
                    Inl err \<Rightarrow> Inl err
                  | Inr v \<Rightarrow> Inr (v, rest))))"
| "parse_elements 0 depth s acc = Inl JSONDecodeError"
| "parse_elements (Suc n) depth s acc =
     (case parse_value n depth s of
        Inl err \<Rightarrow> Inl err
      | Inr (v, rest) \<Rightarrow>
          (case skip_ws rest of
             [] \<Rightarrow> Inl JSONDecodeError
           | d # ds \<Rightarrow>
               if d = CHR '']'' then Inr (JArray (rev (v # acc)), ds)
               else if d = CHR '','' then parse_elements n depth (skip_ws ds) (v # acc)
               else Inl JSONDecodeError))"
| "parse_members 0 depth s acc = Inl JSONDecodeError"
| "parse_members (Suc n) depth s acc =
     (case s of
        [] \<Rightarrow> Inl JSONDecodeError
      | q # cs \<Rightarrow>
          if q \<noteq> CHR 0x22 then Inl JSONDecodeError
          else
            (case scan_string cs [] of
               None \<Rightarrow> Inl JSONDecodeError
             | Some (key, rest) \<Rightarrow>
                 (case skip_ws rest of
                    [] \<Rightarrow> Inl JSONDecodeError
                  | colon # r \<Rightarrow>
                      if colon \<noteq> CHR '':'' then Inl JSONDecodeError
                      else
                        (case parse_value n depth (skip_ws r) of
                           Inl err \<Rightarrow> Inl err
                         | Inr (v, rest2) \<Rightarrow>
                             (case skip_ws rest2 of
                                [] \<Rightarrow> Inl JSONDecodeError
                              | d # ds \<Rightarrow>
                                  if d = CHR ''}''
                                  then Inr (JObject (dict_set key v acc), ds)
                                  else if d = CHR '',''
                                  then parse_members n depth (skip_ws ds) (dict_set key v acc)
                                  else Inl JSONDecodeError)))))"









section \<open>Facts about the string helpers\<close>

lemma starts_with_iff: "starts_with s p \<longleftrightarrow> (\<exists>post. s = p @ post)"
  by (induction s p rule: starts_with.induct) auto

lemma str_in_iff: "str_in p s \<longleftrightarrow> (\<exists>pre post. s = pre @ p @ post)"
proof (induction s)
  case Nil
  then show ?case by auto
next
  case (Cons c cs)
  show ?case
  proof
    assume "str_in p (c # cs)"
    then consider "starts_with (c # cs) p" | "str_in p cs" by auto
    then show "\<exists>pre post. c # cs = pre @ p @ post"
    proof cases
      case 1
      then obtain post where "c # cs = p @ post" by (auto simp: starts_with_iff)
      then have "c # cs = [] @ p @ post" by simp
      then show ?thesis by blast
    next
      case 2
      then obtain pre post where "cs = pre @ p @ post" using Cons.IH by blast
      then have "c # cs = (c # pre) @ p @ post" by simp
      then show ?thesis by blast
    qed
  next
    assume "\<exists>pre post. c # cs = pre @ p @ post"
    then obtain pre post where eq: "c # cs = pre @ p @ post" by blast
    show "str_in p (c # cs)"
    proof (cases pre)
      case Nil
      with eq have "starts_with (c # cs) p" by (auto simp: starts_with_iff)
      then show ?thesis by simp
    next
      case (Cons a pre')
      with eq have "cs = pre' @ p @ post" by simp
      then have "str_in p cs" using Cons.IH by blast
      then show ?thesis by simp
    qed
  qed
qed

lemma str_in_lower_iff:
  assumes "lower m = m"
  shows "str_in m (lower s) \<longleftrightarrow> ci_substring m s"
proof
  assume "str_in m (lower s)"
  then obtain pre post where "map lower_char s = pre @ m @ post"
    by (auto simp: str_in_iff lower_def)
  then obtain a rest where a: "s = a @ rest" "m @ post = map lower_char rest"
    using map_eq_append_conv [THEN iffD1] by blast
  from a(2) obtain b c where "rest = b @ c" "m = map lower_char b"
    using append_eq_map_conv [THEN iffD1] by blast
  with a have "s = a @ b @ c" "map lower_char b = m" by simp_all
  then show "ci_substring m s"
    using assms unfolding ci_substring_def lower_def by metis
next
  assume "ci_substring m s"
  then obtain pre w post where "s = pre @ w @ post" "lower w = m"
    using assms unfolding ci_substring_def by auto
  then have "lower s = lower pre @ m @ lower post"
    by (auto simp: lower_def)
  then show "str_in m (lower s)"
    unfolding str_in_iff by blast
qed

lemma lower_markers:
  "lower ''error:'' = ''error:''" "lower ''failed'' = ''failed''"
  "lower ''could not'' = ''could not''" "lower ''conflict'' = ''conflict''"
  by (simp_all add: lower_def lower_char_def)

lemma has_error_iff:
  "has_error output \<longleftrightarrow>
     ci_substring ''error:'' output \<or> ci_substring ''failed'' output \<or>
     ci_substring ''could not'' output \<or> ci_substring ''conflict'' output"
  unfolding has_error_def
  by (simp only: list_ex_Nil_iff list_ex_Cons_iff str_in_lower_iff [OF lower_markers(1)]
        str_in_lower_iff [OF lower_markers(2)] str_in_lower_iff [OF lower_markers(3)]
        str_in_lower_iff [OF lower_markers(4)]) simp

section \<open>The command runner: success predicate and logging\<close>

text \<open>
  Claim C7. For a command that completes (no timeout, no exception), the runner reports
  success exactly when the exit code is zero and the combined output (stdout followed
  by stderr) contains none of the markers "error:", "failed", "could not", "conflict"
  as a substring up to the case of letters. In particular exit code 0 with a marker in
  the output is a failure.
\<close>

theorem execute_command_success_iff:
  assumes "subprocess_run e (invocations r) command = Completed out err rc"
  shows "fst (fst (execute_command e command descr r)) \<longleftrightarrow>
           rc = 0 \<and> \<not> ci_substring ''error:'' (out @ err) \<and>
           \<not> ci_substring ''failed'' (out @ err) \<and>
           \<not> ci_substring ''could not'' (out @ err) \<and>
           \<not> ci_substring ''conflict'' (out @ err)"
  using assms by (simp add: execute_command_def has_error_iff Let_def)

theorem execute_command_success_iff_witness:
  "subprocess_run env_marker (invocations (init_resolver 8)) ''pip install a'' =
     Completed ''ERROR: No matching distribution'' [] 0 \<and>
   \<not> fst (fst (execute_command env_marker ''pip install a'' [] (init_resolver 8)))"
proof -
  have h: "subprocess_run env_marker (invocations (init_resolver 8)) ''pip install a'' =
     Completed ''ERROR: No matching distribution'' [] 0"
    by (simp add: env_marker_def)
  have "has_error (''ERROR: No matching distribution'' @ [])"
    by code_simp
  then have "ci_substring ''error:'' (''ERROR: No matching distribution'' @ []) \<or>
     ci_substring ''failed'' (''ERROR: No matching distribution'' @ []) \<or>
     ci_substring ''could not'' (''ERROR: No matching distribution'' @ []) \<or>
     ci_substring ''conflict'' (''ERROR: No matching distribution'' @ [])"
    by (simp only: has_error_iff)
  with execute_command_success_iff [OF h, of "[]"] h show ?thesis by blast
qed

text \<open>
  Claim C3. The claim asks for one log entry per invocation of the runner, also for a
  timeout and for an exception. The source appends the entry only inside the \<open>try\<close>
  block after a completed run: here the first command times out and the second raises,
  two invocations are made, and the execution log stays empty.
\<close>

theorem execute_command_not_logged:
  "execute_command env_timeout ''pip install a'' [] (init_resolver 8) =
     ((False, ''Command timeout''), (init_resolver 8)\<lparr>invocations := 1\<rparr>) \<and>
   execute_command env_timeout ''pip install a'' [] ((init_resolver 8)\<lparr>invocations := 1\<rparr>) =
     ((False, ''boom''), (init_resolver 8)\<lparr>invocations := 2\<rparr>) \<and>
   execution_log ((init_resolver 8)\<lparr>invocations := 2\<rparr>) = []"
  by (simp add: execute_command_def env_timeout_def init_resolver_def)

section \<open>Frame facts: what each operation leaves unchanged\<close>

lemma execute_command_frame:
  "solution_history (snd (execute_command e c d r)) = solution_history r"
  "ai_consultation_count (snd (execute_command e c d r)) = ai_consultation_count r"
  "max_ai_iterations (snd (execute_command e c d r)) = max_ai_iterations r"
  "invocations (snd (execute_command e c d r)) = Suc (invocations r)"
  by (simp_all add: execute_command_def Let_def split: proc_result.split)

lemma run_undo_frame:
  "solution_history (run_undo e cmds r) = solution_history r"
  "ai_consultation_count (run_undo e cmds r) = ai_consultation_count r"
  "max_ai_iterations (run_undo e cmds r) = max_ai_iterations r"
  "invocations (run_undo e cmds r) = invocations r + length cmds"
  by (induction cmds arbitrary: r) (simp_all add: execute_command_frame)

lemma run_commands_frame:
  "solution_history (snd (run_commands e cmds a f r)) = solution_history r"
  "ai_consultation_count (snd (run_commands e cmds a f r)) = ai_consultation_count r"
  "max_ai_iterations (snd (run_commands e cmds a f r)) = max_ai_iterations r"
  "invocations (snd (run_commands e cmds a f r)) = invocations r + length cmds"
  by (induction cmds arbitrary: a f r) (simp_all add: execute_command_frame Let_def)

lemma run_commands_exit_code:
  "\<forall>fc \<in> set f. fc_exit_code fc = 1 \<Longrightarrow>
   \<forall>fc \<in> set (snd (fst (run_commands e cmds a f r))). fc_exit_code fc = 1"
proof (induction cmds arbitrary: a f r)
  case Nil
  then show ?case by simp
next
  case (Cons c cmds)
  let ?res = "execute_command e c [] r"
  let ?f' = "f @ [\<lparr>fc_command = c, fc_output = snd (fst ?res), fc_exit_code = 1\<rparr>]"
  have f': "\<forall>fc \<in> set ?f'. fc_exit_code fc = 1"
    using Cons.prems by simp
  show ?case
  proof (cases "fst (fst ?res)")
    case True
    then show ?thesis using Cons.IH [OF Cons.prems] by (simp add: Let_def)
  next
    case False
    then show ?thesis using Cons.IH [OF f'] by (simp add: Let_def)
  qed
qed

lemma record_attempt_frame:
  "ai_consultation_count (record_attempt sol n r) = ai_consultation_count r"
  "max_ai_iterations (record_attempt sol n r) = max_ai_iterations r"
  "invocations (record_attempt sol n r) = invocations r"
  "execution_log (record_attempt sol n r) = execution_log r"
  by (simp_all add: record_attempt_def)

lemma apply_recorded_frame:
  "solution_history (snd (apply_recorded e sol r)) = solution_history r"
  "ai_consultation_count (snd (apply_recorded e sol r)) = ai_consultation_count r"
  "max_ai_iterations (snd (apply_recorded e sol r)) = max_ai_iterations r"
  by (simp_all add: apply_recorded_def Let_def run_commands_frame run_undo_frame
        execute_command_frame split: option.split)

lemma apply_solution_frame:
  "ai_consultation_count (snd (apply_solution e sol n r)) = ai_consultation_count r"
  "max_ai_iterations (snd (apply_solution e sol n r)) = max_ai_iterations r"
  by (simp_all add: apply_solution_def apply_recorded_frame record_attempt_frame)

lemma apply_solution_history_length:
  "length (solution_history (snd (apply_solution e sol n r))) =
     Suc (length (solution_history r))"
  by (simp add: apply_solution_def apply_recorded_frame record_attempt_def)

lemma apply_each_history_length:
  "length (solution_history (apply_each e calls r)) = length (solution_history r) + length calls"
  by (induction calls arbitrary: r) (simp_all add: apply_solution_history_length)

lemma has_error_marker: "has_error ''ERROR: No matching distribution''"
  by code_simp

lemma has_error_empty: "\<not> has_error []"
  by (simp add: has_error_def lower_def)

section \<open>The solution applier: failed commands and history\<close>

text \<open>
  Claim C10. Every entry of the list of failed commands returned by \<open>apply_solution\<close>
  carries the exit code 1, whatever the exit code of the process was: the entry is built
  with the literal 1, also for a command that exits with code 0 and fails by a marker
  in its output, and for a timeout.
\<close>

theorem apply_solution_failed_exit_code:
  "\<forall>fc \<in> set (snd (fst (apply_solution e sol n r))). fc_exit_code fc = 1"
  using run_commands_exit_code [of "[]" e "commands sol" True]
  by (simp add: apply_solution_def apply_recorded_def Let_def split: option.split)

theorem apply_solution_failed_exit_code_witness:
  "snd (fst (apply_solution env_marker sol_a 1 (init_resolver 8))) =
     [\<lparr>fc_command = ''pip install a'', fc_output = ''ERROR: No matching distribution'',
       fc_exit_code = 1\<rparr>] \<and>
   map le_exit_code (execution_log (snd (apply_solution env_marker sol_a 1 (init_resolver 8))))
     = [0] \<and>
   list_all (\<lambda>fc. fc_exit_code fc = 1)
     (snd (fst (apply_solution env_marker sol_a 1 (init_resolver 8))))"
  using apply_solution_failed_exit_code [of env_marker sol_a 1 "init_resolver 8"]
  by (simp add: apply_solution_def apply_recorded_def Let_def sol_a_def env_marker_def
        init_resolver_def execute_command_def record_attempt_def has_error_marker)

text \<open>
  Claim C6. Every call of \<open>apply_solution\<close> appends exactly one entry to
  \<open>solution_history\<close>: the entry is in place before the first command of the solution
  runs (recording runs no command and everything else starts from the recorded state),
  no later step of the call touches the history, and after any sequence of calls the
  history has grown by the number of calls.
\<close>

theorem apply_solution_history:
  "apply_solution e sol n r = apply_recorded e sol (record_attempt sol n r) \<and>
   solution_history (record_attempt sol n r) =
     solution_history r @
       [\<lparr>he_solution_num = n, he_description = description sol, he_commands = commands sol\<rparr>] \<and>
   invocations (record_attempt sol n r) = invocations r \<and>
   execution_log (record_attempt sol n r) = execution_log r \<and>
   solution_history (snd (apply_solution e sol n r)) =
     solution_history r @
       [\<lparr>he_solution_num = n, he_description = description sol, he_commands = commands sol\<rparr>] \<and>
   length (solution_history (apply_each e calls r)) =
     length (solution_history r) + length calls"
  by (simp add: apply_solution_def apply_recorded_frame record_attempt_def
        apply_each_history_length)

section \<open>The consultation budget\<close>

lemma trigger_frame:
  "max_ai_iterations (snd (trigger_web_search_consultation e fs oi r)) = max_ai_iterations r"
  "ai_consultation_count r \<le> max_ai_iterations r \<Longrightarrow>
   ai_consultation_count (snd (trigger_web_search_consultation e fs oi r)) \<le> max_ai_iterations r"
  by (simp_all add: trigger_web_search_consultation_def Let_def)

lemma try_solutions_frame:
  "ai_consultation_count (pass_state (try_solutions e sols i sc cf afc r)) =
     ai_consultation_count r"
  "max_ai_iterations (pass_state (try_solutions e sols i sc cf afc r)) = max_ai_iterations r"
  by (induction sols arbitrary: i sc cf afc r)
     (simp_all add: Let_def apply_solution_frame execute_command_frame)

lemma resolution_while_budget:
  "ai_consultation_count r \<le> max_ai_iterations r \<Longrightarrow>
   ai_consultation_count (snd (resolution_while e oi it sols cf r)) \<le> max_ai_iterations r \<and>
   max_ai_iterations (snd (resolution_while e oi it sols cf r)) = max_ai_iterations r"
proof (induction e oi it sols cf r rule: resolution_while.induct)
  case (1 e oi it sols cf r)
  note inv = "1.prems"
  show ?case
  proof (cases "it < max_total_iterations \<and> \<not> solved r \<and> sols \<noteq> []")
    case False
    then show ?thesis using inv by (subst (1 2) resolution_while.simps) auto
  next
    case True
    show ?thesis
    proof (cases "try_solutions e sols 1 0 cf [] r")
      case (Solved r')
      with try_solutions_frame [where e=e and sols=sols and i=1 and sc=0 and cf=cf and afc="[]" and r=r] True inv show ?thesis
        by (subst (1 2) resolution_while.simps) simp
    next
      case (Finished sc cf' afc r1)
      from try_solutions_frame [where e=e and sols=sols and i=1 and sc=0 and cf=cf and afc="[]" and r=r] Finished
      have r1: "ai_consultation_count r1 = ai_consultation_count r"
        "max_ai_iterations r1 = max_ai_iterations r" by simp_all
      define c where "c = trigger_web_search_consultation e afc oi r1"
      have c: "ai_consultation_count (snd c) \<le> max_ai_iterations r"
        "max_ai_iterations (snd c) = max_ai_iterations r"
        using trigger_frame [where e=e and fs=afc and oi=oi and r=r1] r1 inv by (simp_all add: c_def)
      show ?thesis
      proof (cases "sc = 0 \<and> HAS_AI e")
        case ai: True
        show ?thesis
        proof (cases "escalate (fst c)")
          case (NewQueue q)
          have "ai_consultation_count (snd c) \<le> max_ai_iterations (snd c)" using c by simp
          from "1.IH"(1) [OF _ _ Finished ai c_def NewQueue this] True c
          have "ai_consultation_count (snd (resolution_while e oi (Suc it) q 0 (snd c)))
                  \<le> max_ai_iterations r \<and>
                max_ai_iterations (snd (resolution_while e oi (Suc it) q 0 (snd c)))
                  = max_ai_iterations r" by simp
          then show ?thesis using True Finished ai NewQueue
            by (subst (1 2) resolution_while.simps) (simp add: c_def [symmetric] Let_def)
        next
          case Stop
          then show ?thesis using True Finished ai c
            by (subst (1 2) resolution_while.simps) (simp add: c_def [symmetric] Let_def)
        next
          case Retry
          have "ai_consultation_count (snd c) \<le> max_ai_iterations (snd c)" using c by simp
          from "1.IH"(2) [OF _ _ Finished ai c_def Retry this] True c
          have "ai_consultation_count (snd (resolution_while e oi (Suc it) sols cf' (snd c)))
                  \<le> max_ai_iterations r \<and>
                max_ai_iterations (snd (resolution_while e oi (Suc it) sols cf' (snd c)))
                  = max_ai_iterations r" by simp
          then show ?thesis using True Finished ai Retry
            by (subst (1 2) resolution_while.simps) (simp add: c_def [symmetric] Let_def)
        qed
      next
        case noai: False
        show ?thesis
        proof (cases "sc = 0")
          case True': True
          then show ?thesis using True Finished noai r1 inv
            by (subst (1 2) resolution_while.simps) auto
        next
          case False
          have "ai_consultation_count r1 \<le> max_ai_iterations r1" using r1 inv by simp
          from "1.IH"(3) [OF _ _ Finished noai False this] True r1
          have "ai_consultation_count (snd (resolution_while e oi (Suc it) sols cf' r1))
                  \<le> max_ai_iterations r \<and>
                max_ai_iterations (snd (resolution_while e oi (Suc it) sols cf' r1))
                  = max_ai_iterations r" by simp
          then show ?thesis using True Finished noai False
            by (subst (1 2) resolution_while.simps) auto
        qed
      qed
    qed
  qed
qed

lemma loop_budget:
  "ai_consultation_count r \<le> max_ai_iterations r \<Longrightarrow>
   ai_consultation_count (snd (continuous_resolution_loop e r)) \<le> max_ai_iterations r \<and>
   max_ai_iterations (snd (continuous_resolution_loop e r)) = max_ai_iterations r"
  by (simp add: continuous_resolution_loop_def resolution_while_budget split: option.split)

text \<open>
  Claim C2. The claim states \<open>ai_consultation_count \<le> max_ai_iterations\<close> for every
  session at all times. The constructor accepts any integer, and a session created with
  a negative \<open>max_ai_iterations\<close> starts with count 0 above the limit; here the session
  after a run with limit \<open>-1\<close>.
\<close>

theorem consultation_budget_counterexample:
  "\<not> ai_consultation_count (snd (continuous_resolution_loop env_timeout (init_resolver (- 1))))
      \<le> max_ai_iterations (snd (continuous_resolution_loop env_timeout (init_resolver (- 1))))"
  by (simp add: continuous_resolution_loop_def env_timeout_def init_resolver_def)

text \<open>
  Claim C2, as amended. A consultation attempted with the count at or above the limit
  returns \<open>None\<close> and leaves the session unchanged; an attempt that passes both guards
  adds exactly 1 to \<open>ai_consultation_count\<close> (and to \<open>web_search_count\<close>) whatever
  the advisory service answers; an attempt never breaks \<open>count \<le> limit\<close>; and a
  session created with a limit \<open>m \<ge> 0\<close> ends every run with count at most \<open>m\<close>.
\<close>

theorem consultation_budget:
  "(max_ai_iterations r \<le> ai_consultation_count r \<longrightarrow>
      trigger_web_search_consultation e fs oi r = (None, r)) \<and>
   (HAS_AI e \<and> ai_consultation_count r < max_ai_iterations r \<longrightarrow>
      ai_consultation_count (snd (trigger_web_search_consultation e fs oi r)) =
        ai_consultation_count r + 1 \<and>
      web_search_count (snd (trigger_web_search_consultation e fs oi r)) =
        web_search_count r + 1) \<and>
   (ai_consultation_count r \<le> max_ai_iterations r \<longrightarrow>
      ai_consultation_count (snd (trigger_web_search_consultation e fs oi r)) \<le>
        max_ai_iterations (snd (trigger_web_search_consultation e fs oi r))) \<and>
   (0 \<le> m \<longrightarrow>
      ai_consultation_count (snd (continuous_resolution_loop e (init_resolver m))) \<le> m \<and>
      max_ai_iterations (snd (continuous_resolution_loop e (init_resolver m))) = m)"
proof -
  have "0 \<le> m \<Longrightarrow>
      ai_consultation_count (snd (continuous_resolution_loop e (init_resolver m))) \<le> m \<and>
      max_ai_iterations (snd (continuous_resolution_loop e (init_resolver m))) = m"
    using loop_budget [of "init_resolver m" e] by (simp add: init_resolver_def)
  then show ?thesis
    by (auto simp: trigger_web_search_consultation_def Let_def)
qed

theorem consultation_budget_witness:
  "ai_consultation_count
     (snd (trigger_web_search_consultation env_stop [] [] (init_resolver 8))) = 1 \<and>
   trigger_web_search_consultation env_stop [] [] (init_resolver 0) = (None, init_resolver 0) \<and>
   ai_consultation_count (snd (continuous_resolution_loop env_stop (init_resolver 8))) \<le> 8"
  using consultation_budget [where r = "init_resolver 8" and e = env_stop and fs = "[]"
      and oi = "[]" and m = 8]
    consultation_budget [where r = "init_resolver 0" and e = env_stop and fs = "[]"
      and oi = "[]" and m = 0]
  by (simp add: init_resolver_def env_stop_def)

section \<open>The resolution loop: success at load time and the exit code\<close>

lemmas eval_defs =
  continuous_resolution_loop_def init_resolver_def diag_def is_commands_def
  max_total_iterations_def apply_solution_def apply_recorded_def record_attempt_def
  execute_command_def has_error_empty Let_def trigger_web_search_consultation_def
  escalate_def extract_solutions_def with_solutions_def decoded_solutions_def llm_data_def

text \<open>
  Claim C9. The claim sends a diagnosis whose \<open>overall_status\<close> is "success" directly
  to the SOLVED terminal state, with no command executed and no consultation. The
  source returns \<open>True\<close> at once (line 428; the process exits with code 0), and indeed
  no command has been executed, the execution log is empty and no consultation has been
  made; but this return does not set \<open>self.solved\<close>, so the session does not end in the
  SOLVED state: the \<open>solved\<close> flag is still \<open>False\<close> and the persisted
  \<open>resolution_status\<close> is INCOMPLETE.
\<close>

theorem success_diagnosis_not_solved:
  assumes "load_json e = Some d" and "overall_status d = Some ''success''"
  shows "fst (continuous_resolution_loop e (init_resolver m)) \<and>
         execution_log (snd (continuous_resolution_loop e (init_resolver m))) = [] \<and>
         invocations (snd (continuous_resolution_loop e (init_resolver m))) = 0 \<and>
         ai_consultation_count (snd (continuous_resolution_loop e (init_resolver m))) = 0 \<and>
         fst (main e m) = 0 \<and>
         \<not> solved (snd (continuous_resolution_loop e (init_resolver m))) \<and>
         resolution_status (snd (main e m)) = ''INCOMPLETE''"
  using assms
  by (simp add: continuous_resolution_loop_def init_resolver_def main_def
        save_execution_log_def)

theorem success_diagnosis_not_solved_witness:
  "load_json env_success =
     Some \<lparr>overall_status = Some ''success'', summary = None,
           d_recommended_solutions = [sol_a]\<rparr> \<and>
   fst (continuous_resolution_loop env_success (init_resolver 8)) \<and>
   execution_log (snd (continuous_resolution_loop env_success (init_resolver 8))) = [] \<and>
   ai_consultation_count (snd (continuous_resolution_loop env_success (init_resolver 8))) = 0 \<and>
   \<not> solved (snd (continuous_resolution_loop env_success (init_resolver 8))) \<and>
   resolution_status (snd (main env_success 8)) = ''INCOMPLETE''"
  using success_diagnosis_not_solved [of env_success
      "\<lparr>overall_status = Some ''success'', summary = None, d_recommended_solutions = [sol_a]\<rparr>" 8]
  by (simp add: env_success_def)

text \<open>
  Claim C1. The claim ties exit code 0 to the session's \<open>solved\<close> flag, which is what
  the persisted \<open>resolution_status\<close> reports. The source derives the exit code from the
  value returned by the loop, and the two disagree in both directions: a diagnosis with
  status "success" returns \<open>True\<close> without setting the flag (exit code 0, status
  INCOMPLETE), and a solution whose verification passes sets the flag, after which a
  failing final \<open>pip check\<close> lets the loop end with \<open>False\<close> (exit code 1, status
  SOLVED).
\<close>

theorem exit_code_disagrees_with_solved_flag:
  "main env_success 8 =
     (0, \<lparr>resolution_status = ''INCOMPLETE'', ai_consultations = 0, web_searches = 0,
          total_commands = 0, successful_commands = 0, ld_solution_history = [],
          ld_execution_log = []\<rparr>) \<and>
   fst (main env_verified 8) = 1 \<and>
   resolution_status (snd (main env_verified 8)) = ''SOLVED''"
  by (simp add: main_def continuous_resolution_loop_def env_success_def env_verified_def
        init_resolver_def save_execution_log_def diag_def sol_v_def is_commands_def
        resolution_while.simps max_total_iterations_def apply_solution_def apply_recorded_def
        record_attempt_def execute_command_def has_error_empty Let_def)

section \<open>The stop signal of a consultation\<close>

text \<open>
  Claim C5. The claim lets \<open>should_continue = false\<close> in the decoded payload of a
  consultation stop the loop at once, whatever else the payload holds. The source reads
  \<open>should_continue\<close> (line 549) only from a dictionary that the consultation has
  returned, and only after the branch that installs new solutions and continues (lines
  516 to 542). In the first environment below every decoded payload is
  \<open>{"should_continue": false}\<close>: it has no key \<open>recommended_solutions\<close>, so the
  consultation returns \<open>None\<close> (lines 318 and 333 to 337), the stop signal is never
  read, and the loop goes on with the old queue until all 8 consultations and all 20
  passes are spent. In the second environment the first decoded payload has
  \<open>should_continue = false\<close> and one solution of type \<open>commands\<close>: the loop
  installs the solution, runs a second pass with two more commands and returns
  \<open>True\<close>.
\<close>

theorem stop_signal_not_honoured:
  "consult env_stop_no_key 1 =
     Reply (Some \<lparr>p_recommended_solutions = None, p_web_searches_performed = None,
                  p_should_continue = Some False\<rparr>) llm_data \<and>
   \<not> fst (continuous_resolution_loop env_stop_no_key (init_resolver 8)) \<and>
   ai_consultation_count
     (snd (continuous_resolution_loop env_stop_no_key (init_resolver 8))) = 8 \<and>
   length (execution_log (snd (continuous_resolution_loop env_stop_no_key (init_resolver 8))))
     = 20 \<and>
   consult env_stop_with_solutions 1 =
     Reply (Some \<lparr>p_recommended_solutions = Some [sol_b], p_web_searches_performed = None,
                  p_should_continue = Some False\<rparr>) llm_data \<and>
   fst (continuous_resolution_loop env_stop_with_solutions (init_resolver 8)) \<and>
   map le_command
     (execution_log (snd (continuous_resolution_loop env_stop_with_solutions (init_resolver 8))))
     = [''pip install a'', ''pip install b'', ''pip check''] \<and>
   ai_consultation_count
     (snd (continuous_resolution_loop env_stop_with_solutions (init_resolver 8))) = 1"
  by (simp add: eval_defs env_stop_with_solutions_def env_stop_no_key_def sol_a_def sol_b_def
        resolution_while.simps)

text \<open>
  What the loop does with a stop signal, in all cases. After a pass without success,
  let a consultation take place and let the decoded payload \<open>p\<close> have
  \<open>should_continue = false\<close>; \<open>r2\<close> is the session as the consultation leaves it.
  If \<open>p\<close> is returned by the consultation (it has the key \<open>recommended_solutions\<close>,
  and \<open>web_searches_performed\<close>, if present, has a length) and has no solution of type
  \<open>commands\<close>, the loop stops at once with the session \<open>r2\<close>: no further pass, no
  further consultation, whatever budget remains. If it has solutions of type
  \<open>commands\<close>, the loop goes on with them as the new queue. If \<open>p\<close> is not
  returned, its stop signal is lost: when the reply dictionary has no key
  \<open>recommended_solutions\<close> either, the loop goes on with the old queue; when it has,
  the loop acts on the reply dictionary in place of \<open>p\<close>.
\<close>

lemma stop_signal_cases:
  assumes "it < max_total_iterations" and "\<not> solved r" and "sols \<noteq> []"
    and "try_solutions e sols 1 0 cf [] r = Finished 0 cf' afc r1"
    and "HAS_AI e" and "ai_consultation_count r1 < max_ai_iterations r1"
    and "consult e (nat (ai_consultation_count r1 + 1)) = Reply (Some p) ai_data"
    and "p_should_continue p = Some False"
    and "r2 = r1\<lparr>ai_consultation_count := ai_consultation_count r1 + 1,
                 web_search_count := web_search_count r1 + 1\<rparr>"
  shows "(p_recommended_solutions p = Some ss \<and> p_web_searches_performed p \<noteq> Some None \<and>
          filter is_commands ss = [] \<longrightarrow>
            resolution_while e oi it sols cf r = (False, r2)) \<and>
         (p_recommended_solutions p = Some ss \<and> p_web_searches_performed p \<noteq> Some None \<and>
          filter is_commands ss \<noteq> [] \<longrightarrow>
            resolution_while e oi it sols cf r =
              resolution_while e oi (Suc it) (filter is_commands ss) 0 r2) \<and>
         ((p_recommended_solutions p = None \<or> p_web_searches_performed p = Some None) \<and>
          p_recommended_solutions ai_data = None \<longrightarrow>
            resolution_while e oi it sols cf r =
              resolution_while e oi (Suc it) sols cf' r2) \<and>
         ((p_recommended_solutions p = None \<or> p_web_searches_performed p = Some None) \<and>
          p_recommended_solutions ai_data = Some ss \<longrightarrow>
            resolution_while e oi it sols cf r =
              (case escalate (Some \<lparr>recommended_solutions = ss,
                                    should_continue = p_should_continue ai_data\<rparr>) of
                 NewQueue new_solutions \<Rightarrow>
                   resolution_while e oi (Suc it) new_solutions 0 r2
               | Stop \<Rightarrow> (False, r2)
               | Retry \<Rightarrow> resolution_while e oi (Suc it) sols cf' r2))"
proof -
  have t: "trigger_web_search_consultation e afc oi r1 =
      (extract_solutions (Reply (Some p) ai_data), r2)"
    using assms(5,6,7,9) by (simp add: trigger_web_search_consultation_def Let_def)
  have step: "resolution_while e oi it sols cf r =
      (case escalate (extract_solutions (Reply (Some p) ai_data)) of
         NewQueue new_solutions \<Rightarrow> resolution_while e oi (Suc it) new_solutions 0 r2
       | Stop \<Rightarrow> (False, r2)
       | Retry \<Rightarrow> resolution_while e oi (Suc it) sols cf' r2)"
    using assms(1-5) t
    by (subst resolution_while.simps) (simp add: Let_def split: escalation.split)
  show ?thesis
    unfolding step using assms(8)
    by (auto simp: extract_solutions_def with_solutions_def decoded_solutions_def
          escalate_def Let_def split: option.split)
qed

lemma stop_signal_cases_example:
  "resolution_while env_stop [] 0 [sol_a] 0 (init_resolver 8) =
     (False,
      \<lparr>execution_log =
         [\<lparr>le_command = ''pip install a'', le_success = False, le_output = [],
           le_exit_code = 1, le_description = []\<rparr>],
       max_ai_iterations = 8, ai_consultation_count = 1, web_search_count = 1,
       solved = False,
       solution_history =
         [\<lparr>he_solution_num = 1, he_description = ''install a'',
           he_commands = [''pip install a'']\<rparr>],
       invocations = 1\<rparr>)"
proof -
  let ?r1 = "\<lparr>execution_log =
         [\<lparr>le_command = ''pip install a'', le_success = False, le_output = [],
           le_exit_code = 1, le_description = []\<rparr>],
       max_ai_iterations = 8, ai_consultation_count = 0, web_search_count = 0,
       solved = False,
       solution_history =
         [\<lparr>he_solution_num = 1, he_description = ''install a'',
           he_commands = [''pip install a'']\<rparr>],
       invocations = 1\<rparr>"
  let ?r2 = "?r1\<lparr>ai_consultation_count := ai_consultation_count ?r1 + 1,
                    web_search_count := web_search_count ?r1 + 1\<rparr>"
  let ?p = "\<lparr>p_recommended_solutions = Some [], p_web_searches_performed = None,
             p_should_continue = Some False\<rparr>"
  let ?fc = "[\<lparr>fc_command = ''pip install a'', fc_output = [], fc_exit_code = 1\<rparr>]"
  have h1: "(0::nat) < max_total_iterations" by (simp add: max_total_iterations_def)
  have h2: "\<not> solved (init_resolver 8)" by (simp add: init_resolver_def)
  have h3: "[sol_a] \<noteq> []" by simp
  have h4: "try_solutions env_stop [sol_a] 1 0 0 [] (init_resolver 8) = Finished 0 1 ?fc ?r1"
    by (simp add: eval_defs env_stop_def sol_a_def)
  have h5: "HAS_AI env_stop" by (simp add: env_stop_def)
  have h6: "ai_consultation_count ?r1 < max_ai_iterations ?r1" by simp
  have h7: "consult env_stop (nat (ai_consultation_count ?r1 + 1)) = Reply (Some ?p) llm_data"
    by (simp add: env_stop_def)
  have h8: "p_should_continue ?p = Some False" by simp
  show ?thesis
    using stop_signal_cases [OF h1 h2 h3 h4 h5 h6 h7 h8 refl, of "[]" "[]"] by simp
qed

section \<open>Solutions that are not of type \<open>commands\<close>\<close>

lemma drop_execute_command:
  "execute_command (drop_non_commands e) c d r = execute_command e c d r"
  by (simp add: execute_command_def drop_non_commands_def)

lemma drop_run_undo: "run_undo (drop_non_commands e) cmds r = run_undo e cmds r"
  by (induction cmds arbitrary: r) (simp_all add: drop_execute_command)

lemma drop_run_commands:
  "run_commands (drop_non_commands e) cmds a f r = run_commands e cmds a f r"
  by (induction cmds arbitrary: a f r) (simp_all add: drop_execute_command Let_def)

lemma drop_apply_solution:
  "apply_solution (drop_non_commands e) sol n r = apply_solution e sol n r"
  by (simp add: apply_solution_def apply_recorded_def drop_execute_command drop_run_undo
        drop_run_commands Let_def split: option.split)

lemma drop_try_solutions:
  "try_solutions (drop_non_commands e) sols i sc cf afc r = try_solutions e sols i sc cf afc r"
  by (induction sols arbitrary: i sc cf afc r)
     (simp_all add: drop_apply_solution drop_execute_command Let_def)

lemma escalate_filter:
  "escalate (map_option
      (\<lambda>a. a\<lparr>recommended_solutions := filter is_commands (recommended_solutions a)\<rparr>) x) =
   escalate x"
  by (cases x) (simp_all add: escalate_def Let_def)

lemma with_solutions_only_commands:
  "with_solutions (only_commands p) =
     map_option
       (\<lambda>a. a\<lparr>recommended_solutions := filter is_commands (recommended_solutions a)\<rparr>)
       (with_solutions p)"
  "decoded_solutions (only_commands p) =
     map_option
       (\<lambda>a. a\<lparr>recommended_solutions := filter is_commands (recommended_solutions a)\<rparr>)
       (decoded_solutions p)"
  by (simp_all add: with_solutions_def decoded_solutions_def only_commands_def
        split: option.split)

lemma extract_solutions_only_commands:
  "extract_solutions
     (case rp of No_reply \<Rightarrow> No_reply
      | Reply parsed ai_data \<Rightarrow> Reply (map_option only_commands parsed) (only_commands ai_data)) =
   map_option
     (\<lambda>a. a\<lparr>recommended_solutions := filter is_commands (recommended_solutions a)\<rparr>)
     (extract_solutions rp)"
proof (cases rp)
  case No_reply
  then show ?thesis by (simp add: extract_solutions_def)
next
  case (Reply parsed ai_data)
  show ?thesis
  proof (cases parsed)
    case None
    with Reply show ?thesis
      by (simp add: extract_solutions_def with_solutions_only_commands)
  next
    case (Some p)
    with Reply show ?thesis
      by (cases "decoded_solutions p")
         (simp_all add: extract_solutions_def with_solutions_only_commands)
  qed
qed

lemma drop_trigger:
  "snd (trigger_web_search_consultation (drop_non_commands e) fs oi r) =
     snd (trigger_web_search_consultation e fs oi r)"
  "escalate (fst (trigger_web_search_consultation (drop_non_commands e) fs oi r)) =
     escalate (fst (trigger_web_search_consultation e fs oi r))"
proof -
  show "snd (trigger_web_search_consultation (drop_non_commands e) fs oi r) =
     snd (trigger_web_search_consultation e fs oi r)"
    by (simp add: trigger_web_search_consultation_def drop_non_commands_def Let_def)
  have "fst (trigger_web_search_consultation (drop_non_commands e) fs oi r) =
     map_option
      (\<lambda>a. a\<lparr>recommended_solutions := filter is_commands (recommended_solutions a)\<rparr>)
      (fst (trigger_web_search_consultation e fs oi r))"
    by (simp add: trigger_web_search_consultation_def drop_non_commands_def Let_def
          extract_solutions_only_commands)
  then show "escalate (fst (trigger_web_search_consultation (drop_non_commands e) fs oi r)) =
     escalate (fst (trigger_web_search_consultation e fs oi r))"
    by (simp only: escalate_filter)
qed

lemma drop_has_ai: "HAS_AI (drop_non_commands e) = HAS_AI e"
  by (simp add: drop_non_commands_def)

lemma drop_resolution_while:
  "resolution_while (drop_non_commands e) oi it sols cf r = resolution_while e oi it sols cf r"
proof (induction e oi it sols cf r rule: resolution_while.induct)
  case (1 e oi it sols cf r)
  show ?case
  proof (cases "it < max_total_iterations \<and> \<not> solved r \<and> sols \<noteq> []")
    case False
    then show ?thesis by (subst (1 2) resolution_while.simps) auto
  next
    case True
    show ?thesis
    proof (cases "try_solutions e sols 1 0 cf [] r")
      case (Solved r')
      with True show ?thesis
        by (subst (1 2) resolution_while.simps) (simp add: drop_try_solutions)
    next
      case (Finished sc cf' afc r1)
      define c where "c = trigger_web_search_consultation e afc oi r1"
      define c' where "c' = trigger_web_search_consultation (drop_non_commands e) afc oi r1"
      have cc: "snd c' = snd c" "escalate (fst c') = escalate (fst c)"
        by (simp_all add: c_def c'_def drop_trigger)
      show ?thesis
      proof (cases "sc = 0 \<and> HAS_AI e")
        case ai: True
        show ?thesis
        proof (cases "escalate (fst c)")
          case (NewQueue q)
          from "1.IH"(1) [OF _ _ Finished ai c_def NewQueue] True
          have "resolution_while (drop_non_commands e) oi (Suc it) q 0 (snd c) =
                  resolution_while e oi (Suc it) q 0 (snd c)" by simp
          then show ?thesis using True Finished ai NewQueue cc
            by (subst (1 2) resolution_while.simps)
               (simp add: drop_try_solutions drop_has_ai c_def [symmetric] c'_def [symmetric]
                  Let_def)
        next
          case Stop
          then show ?thesis using True Finished ai cc
            by (subst (1 2) resolution_while.simps)
               (simp add: drop_try_solutions drop_has_ai c_def [symmetric] c'_def [symmetric]
                  Let_def)
        next
          case Retry
          from "1.IH"(2) [OF _ _ Finished ai c_def Retry] True
          have "resolution_while (drop_non_commands e) oi (Suc it) sols cf' (snd c) =
                  resolution_while e oi (Suc it) sols cf' (snd c)" by simp
          then show ?thesis using True Finished ai Retry cc
            by (subst (1 2) resolution_while.simps)
               (simp add: drop_try_solutions drop_has_ai c_def [symmetric] c'_def [symmetric]
                  Let_def)
        qed
      next
        case noai: False
        show ?thesis
        proof (cases "sc = 0")
          case True': True
          then show ?thesis using True Finished noai
            by (subst (1 2) resolution_while.simps)
               (auto simp: drop_try_solutions drop_has_ai)
        next
          case False
          from "1.IH"(3) [OF _ _ Finished noai False] True
          have "resolution_while (drop_non_commands e) oi (Suc it) sols cf' r1 =
                  resolution_while e oi (Suc it) sols cf' r1" by simp
          then show ?thesis using True Finished noai False
            by (subst (1 2) resolution_while.simps)
               (auto simp: drop_try_solutions drop_has_ai)
        qed
      qed
    qed
  qed
qed

lemma resolution_while_empty: "resolution_while e oi it [] cf r = (False, r)"
  by (subst resolution_while.simps) simp

lemma drop_loop:
  "continuous_resolution_loop (drop_non_commands e) r = continuous_resolution_loop e r"
proof (cases "load_json e")
  case None
  then show ?thesis by (simp add: continuous_resolution_loop_def drop_non_commands_def)
next
  case (Some d)
  have l: "load_json (drop_non_commands e) =
      Some (d\<lparr>d_recommended_solutions := filter is_commands (d_recommended_solutions d)\<rparr>)"
    using Some by (simp add: drop_non_commands_def)
  show ?thesis
    by (simp add: continuous_resolution_loop_def l Some drop_resolution_while
          resolution_while_empty)
qed

text \<open>
  Claim C4. The claim asks \<open>apply_solution\<close> to report a solution of another type
  as not applicable, distinct from failure. The source returns \<open>(False, [])\<close>, which
  is also what a solution of type \<open>commands\<close> returns when its verification fails,
  and the body of the loop counts such a result as a failure.
\<close>

theorem non_commands_counterexample:
  "fst (apply_solution env_first_only sol_manual 1 (init_resolver 8)) = (False, []) \<and>
   fst (apply_solution env_first_only sol_v 1 (init_resolver 8)) = (False, []) \<and>
   (case try_solutions env_first_only [sol_manual] 1 0 0 [] (init_resolver 8) of
      Solved r \<Rightarrow> False
    | Finished success_count consecutive_failures all_failed r \<Rightarrow>
        success_count = 0 \<and> consecutive_failures = 1)"
  by (simp add: eval_defs env_first_only_def sol_manual_def sol_v_def)

text \<open>
  Claim C4, as amended. For a solution whose type is not \<open>commands\<close>,
  \<open>apply_solution\<close> records the attempt, runs the undo commands only (no main
  command, no verification) and returns \<open>(False, [])\<close>. The loop never hands such a
  solution to \<open>apply_solution\<close>: it filters the diagnosis and every consultation
  answer, so a run is the same as the run in which these solutions were never offered,
  and none of them is counted as a failed attempt.
\<close>

theorem non_commands_not_applied:
  assumes "solution_type sol \<noteq> ''commands''"
  shows "apply_solution e sol n r =
           ((False, []), run_undo e (undo_commands sol) (record_attempt sol n r)) \<and>
         continuous_resolution_loop (drop_non_commands e) r0 = continuous_resolution_loop e r0"
  using assms by (simp add: apply_solution_def apply_recorded_def drop_loop)

theorem non_commands_not_applied_witness:
  "solution_type sol_manual \<noteq> ''commands'' \<and>
   apply_solution env_first_only sol_manual 1 (init_resolver 8) =
     ((False, []),
      (init_resolver 8)\<lparr>solution_history :=
        [\<lparr>he_solution_num = 1, he_description = ''ask the user'',
          he_commands = [''pip install a'']\<rparr>]\<rparr>)"
  using non_commands_not_applied [of sol_manual env_first_only 1 "init_resolver 8"]
  by (simp add: sol_manual_def record_attempt_def init_resolver_def)

section \<open>The resilient decoder: fallback order\<close>



















end
